theory Spec2Isabelle
  imports Main
begin

section \<open>Data model\<close>

text \<open>
  The service is a NestJS application over a Prisma database with two tables that the
  code touches: \<open>user\<close> and \<open>refreshToken\<close>. Rows are records, tables are lists of rows
  in insertion order, and a time stamp is the number of milliseconds of a JavaScript
  \<open>Date\<close>. Names follow the source; \<open>id'\<close> and \<open>createdAt'\<close> carry a prime because
  \<open>id\<close> is a constant of HOL and \<open>createdAt\<close> is also a column of the other table.
\<close>

datatype Role = USER | ADMIN

fun roleName :: "Role \<Rightarrow> string" where
  "roleName USER = ''USER''"
| "roleName ADMIN = ''ADMIN''"

record User =
  id' :: string
  email :: string
  password :: string
  firstName :: "string option"
  lastName :: "string option"
  role :: Role
  isActive :: bool
  createdAt' :: int
  updatedAt :: int

text \<open>
  Modelled from the spec: the Prisma schema is not in the repository. The columns
  \<open>token\<close>, \<open>userId\<close>, \<open>expiresAt\<close> and \<open>isRevoked\<close> are those the code reads and
  writes; \<open>createdAt\<close> is the created-at of the specification's data model, set when the
  row is inserted.
\<close>

record RefreshToken =
  token :: string
  userId :: string
  expiresAt :: int
  isRevoked :: bool
  createdAt :: int

record Db =
  user_table :: "User list"
  refreshToken_table :: "RefreshToken list"

text \<open>
  What the services hand back to a caller is a JavaScript object: an ordered list of
  properties. A property that is absent reads as \<open>undefined\<close> (\<open>None\<close>).
\<close>

datatype JsValue = JsString string | JsBool bool | JsDate int | JsNull

type_synonym JsObject = "(string \<times> JsValue) list"

definition property :: "JsObject \<Rightarrow> string \<Rightarrow> JsValue option" where
  "property obj k = map_of obj k"

fun truthy :: "JsValue option \<Rightarrow> bool" where
  "truthy None = False"
| "truthy (Some (JsBool b)) = b"
| "truthy (Some (JsString s)) = (s \<noteq> [])"
| "truthy (Some (JsDate d)) = True"
| "truthy (Some JsNull) = False"

text \<open>
  The TypeScript signatures type \<open>user.id\<close>, \<open>user.email\<close> and \<open>user.role\<close> as
  strings; \<open>asString\<close> reads such a property. Its second equation is never reached on an
  object that a query with \<open>userSelect\<close> produced (\<open>selected_fields\<close> below).
\<close>

fun asString :: "JsValue option \<Rightarrow> string" where
  "asString (Some (JsString s)) = s"
| "asString v = []"

definition optString :: "string option \<Rightarrow> JsValue" where
  "optString v = (case v of None \<Rightarrow> JsNull | Some s \<Rightarrow> JsString s)"

definition toObject :: "User \<Rightarrow> JsObject" where
  "toObject u =
     [(''id'', JsString (id' u)),
      (''email'', JsString (email u)),
      (''password'', JsString (password u)),
      (''firstName'', optString (firstName u)),
      (''lastName'', optString (lastName u)),
      (''role'', JsString (roleName (role u))),
      (''isActive'', JsBool (isActive u)),
      (''createdAt'', JsDate (createdAt' u)),
      (''updatedAt'', JsDate (updatedAt u))]"

text \<open>Prisma's \<open>select\<close>: the properties whose name the selection maps to \<open>true\<close>.\<close>

definition select :: "(string \<times> bool) list \<Rightarrow> JsObject \<Rightarrow> JsObject" where
  "select sel obj = filter (\<lambda>kv. map_of sel (fst kv) = Some True) obj"

text \<open>The rest pattern \<open>const { password, ...result } = user\<close>.\<close>

definition omit :: "string \<Rightarrow> JsObject \<Rightarrow> JsObject" where
  "omit k obj = filter (\<lambda>kv. fst kv \<noteq> k) obj"

definition keys :: "JsObject \<Rightarrow> string list" where
  "keys obj = map fst obj"

definition userSelect :: "(string \<times> bool) list" where
  "userSelect =
     [(''id'', True), (''email'', True), (''firstName'', True), (''lastName'', True),
      (''role'', True), (''isActive'', True), (''createdAt'', True), (''updatedAt'', True)]"

subsection \<open>Exceptions, requests and responses\<close>

datatype Exception =
    UnauthorizedException string
  | ConflictException string
  | NotFoundException string
  | JsonWebTokenError
  | PrismaClientKnownRequestError string

text \<open>The names the specification gives to the four authentication failures.\<close>

abbreviation InvalidCredentialsError :: Exception where
  "InvalidCredentialsError \<equiv> UnauthorizedException ''Invalid credentials''"

abbreviation AccountInactiveError :: Exception where
  "AccountInactiveError \<equiv> UnauthorizedException ''Account is deactivated''"

abbreviation InvalidRefreshTokenError :: Exception where
  "InvalidRefreshTokenError \<equiv> UnauthorizedException ''Invalid refresh token''"

abbreviation RefreshTokenExpiredError :: Exception where
  "RefreshTokenExpiredError \<equiv> UnauthorizedException ''Refresh token expired''"

text \<open>\<open>RegisterDto\<close>: email, password, firstName, lastName. \<open>LoginDto\<close>: email, password.\<close>

datatype RegisterDto = RegisterDto string string "string option" "string option"

datatype LoginDto = LoginDto string string

datatype RefreshTokenDto = RefreshTokenDto string

text \<open>The claims \<open>{ sub, email, role }\<close> that are signed into a token.\<close>

datatype JwtPayload = JwtPayload string string string

fun sub :: "JwtPayload \<Rightarrow> string" where
  "sub (JwtPayload s e r) = s"

record Tokens =
  accessToken :: string
  refreshToken :: string

text \<open>\<open>{ user, ...tokens }\<close>: the token pair extended by the user object.\<close>

record AuthResponse = Tokens +
  user :: JsObject

datatype Message = Message string

subsection \<open>Collaborators\<close>

text \<open>
  The JWT library, bcrypt, the configuration service and the Prisma schema (with the
  defaults of a new user row: its id, role and active flag) are not part of the
  repository. They are parameters of the model: every theorem holds for all of them.
  \<open>jwtSign payload secret expiresIn now\<close> is \<open>None\<close> when \<open>signAsync\<close> rejects,
  \<open>jwtVerify token secret now\<close> is \<open>None\<close> when \<open>verify\<close> throws. A request reads the
  clock once: \<open>now\<close> is that reading.
\<close>

record Env =
  config :: "string \<Rightarrow> string option"
  jwtSign :: "JwtPayload \<Rightarrow> string option \<Rightarrow> string \<Rightarrow> int \<Rightarrow> string option"
  jwtVerify :: "string \<Rightarrow> string option \<Rightarrow> int \<Rightarrow> JwtPayload option"
  bcryptHash :: "string \<Rightarrow> nat \<Rightarrow> string"
  bcryptCompare :: "string \<Rightarrow> string \<Rightarrow> bool"
  newId :: "User list \<Rightarrow> string"
  defaultRole :: Role
  defaultIsActive :: bool

text \<open>JavaScript's \<open>value || fallback\<close> on a string that may be undefined.\<close>

definition orDefault :: "string option \<Rightarrow> string \<Rightarrow> string" where
  "orDefault v d = (case v of None \<Rightarrow> d | Some s \<Rightarrow> if s = [] then d else s)"

section \<open>The Prisma client\<close>

text \<open>
  \<open>findUnique\<close> and \<open>update\<close> address a row by a unique column (\<open>email\<close> and \<open>id\<close> of a
  user, \<open>token\<close> of a refresh token); \<open>create\<close> fails with code P2002 when it would
  duplicate such a column, \<open>update\<close> with P2025 when no row matches. \<open>updateMany\<close> never
  fails.
\<close>

fun update_first :: "('a \<Rightarrow> bool) \<Rightarrow> ('a \<Rightarrow> 'a) \<Rightarrow> 'a list \<Rightarrow> 'a list" where
  "update_first P f [] = []"
| "update_first P f (x # xs) = (if P x then f x # xs else x # update_first P f xs)"

definition user_findUnique_email :: "Db \<Rightarrow> string \<Rightarrow> User option" where
  "user_findUnique_email db e = find (\<lambda>u. email u = e) (user_table db)"

definition user_findUnique_id :: "Db \<Rightarrow> string \<Rightarrow> User option" where
  "user_findUnique_id db i = find (\<lambda>u. id' u = i) (user_table db)"

definition user_create :: "Db \<Rightarrow> User \<Rightarrow> Exception + Db" where
  "user_create db u =
     (if email u \<in> set (map email (user_table db)) \<or> id' u \<in> set (map id' (user_table db))
      then Inl (PrismaClientKnownRequestError ''P2002'')
      else Inr (db\<lparr>user_table := user_table db @ [u]\<rparr>))"

definition user_update :: "Db \<Rightarrow> string \<Rightarrow> (User \<Rightarrow> User) \<Rightarrow> Exception + (User \<times> Db)" where
  "user_update db i data =
     (case user_findUnique_id db i of
        None \<Rightarrow> Inl (PrismaClientKnownRequestError ''P2025'')
      | Some u \<Rightarrow>
          (let rows = update_first (\<lambda>u. id' u = i) data (user_table db) in
           if distinct (map email rows) \<and> distinct (map id' rows)
           then Inr (data u, db\<lparr>user_table := rows\<rparr>)
           else Inl (PrismaClientKnownRequestError ''P2002'')))"

definition refreshToken_findUnique :: "Db \<Rightarrow> string \<Rightarrow> RefreshToken option" where
  "refreshToken_findUnique db t = find (\<lambda>r. token r = t) (refreshToken_table db)"

definition refreshToken_update ::
  "Db \<Rightarrow> string \<Rightarrow> (RefreshToken \<Rightarrow> RefreshToken) \<Rightarrow> Exception + Db" where
  "refreshToken_update db t data =
     (case refreshToken_findUnique db t of
        None \<Rightarrow> Inl (PrismaClientKnownRequestError ''P2025'')
      | Some r \<Rightarrow>
          Inr (db\<lparr>refreshToken_table :=
                    update_first (\<lambda>r. token r = t) data (refreshToken_table db)\<rparr>))"

definition refreshToken_updateMany ::
  "Db \<Rightarrow> string \<Rightarrow> (RefreshToken \<Rightarrow> RefreshToken) \<Rightarrow> Db" where
  "refreshToken_updateMany db t data =
     db\<lparr>refreshToken_table :=
          map (\<lambda>r. if token r = t then data r else r) (refreshToken_table db)\<rparr>"

definition refreshToken_create :: "Db \<Rightarrow> RefreshToken \<Rightarrow> Exception + Db" where
  "refreshToken_create db r =
     (if token r \<in> set (map token (refreshToken_table db))
      then Inl (PrismaClientKnownRequestError ''P2002'')
      else Inr (db\<lparr>refreshToken_table := refreshToken_table db @ [r]\<rparr>))"

section \<open>UsersService\<close>

text \<open>
  \<open>create\<close> stores the DTO's fields with the hashed password; the id, the role and the
  active flag are the schema's defaults for a new row, and the two time stamps are the
  time of the insert.
\<close>

fun UsersService_create ::
  "Env \<Rightarrow> int \<Rightarrow> Db \<Rightarrow> RegisterDto \<Rightarrow> Exception + (JsObject \<times> Db)" where
  "UsersService_create env now db (RegisterDto dtoEmail dtoPassword dtoFirst dtoLast) =
     (let hashedPassword = bcryptHash env dtoPassword 10;
          row = \<lparr>id' = newId env (user_table db), email = dtoEmail,
                 password = hashedPassword, firstName = dtoFirst, lastName = dtoLast,
                 role = defaultRole env, isActive = defaultIsActive env,
                 createdAt' = now, updatedAt = now\<rparr>
      in case user_create db row of
           Inl e \<Rightarrow> Inl e
         | Inr db' \<Rightarrow> Inr (select userSelect (toObject row), db'))"

definition UsersService_findByEmail :: "Db \<Rightarrow> string \<Rightarrow> User option" where
  "UsersService_findByEmail db e = user_findUnique_email db e"

definition UsersService_findById :: "Db \<Rightarrow> string \<Rightarrow> Exception + JsObject" where
  "UsersService_findById db i =
     (case user_findUnique_id db i of
        None \<Rightarrow> Inl (NotFoundException ''User not found'')
      | Some u \<Rightarrow> Inr (select userSelect (toObject u)))"

definition UsersService_findAll :: "Db \<Rightarrow> JsObject list" where
  "UsersService_findAll db = map (\<lambda>u. select userSelect (toObject u)) (user_table db)"

text \<open>
  \<open>update\<close> writes the fields of an \<open>UpdateUserDto\<close>, whose declaration is not in the
  repository: the effect of the DTO on the row is the parameter \<open>data\<close>.
\<close>

definition UsersService_update ::
  "Db \<Rightarrow> string \<Rightarrow> (User \<Rightarrow> User) \<Rightarrow> Exception + (JsObject \<times> Db)" where
  "UsersService_update db i data =
     (case user_update db i data of
        Inl e \<Rightarrow> Inl e
      | Inr (u, db') \<Rightarrow> Inr (select userSelect (toObject u), db'))"

definition UsersService_assignRole ::
  "Db \<Rightarrow> string \<Rightarrow> Role \<Rightarrow> Exception + (JsObject \<times> Db)" where
  "UsersService_assignRole db uid r =
     (case user_update db uid (\<lambda>u. u\<lparr>role := r\<rparr>) of
        Inl e \<Rightarrow> Inl e
      | Inr (u, db') \<Rightarrow> Inr (select userSelect (toObject u), db'))"

section \<open>AuthService\<close>

definition generateTokens :: "Env \<Rightarrow> int \<Rightarrow> string \<Rightarrow> string \<Rightarrow> string \<Rightarrow> Exception + Tokens" where
  "generateTokens env now uid mail rolename =
     (let payload = JwtPayload uid mail rolename in
      case (jwtSign env payload (config env ''JWT_SECRET'')
              (orDefault (config env ''JWT_ACCESS_TOKEN_EXPIRATION'') ''15m'') now,
            jwtSign env payload (config env ''JWT_REFRESH_SECRET'')
              (orDefault (config env ''JWT_REFRESH_TOKEN_EXPIRATION'') ''7d'') now) of
        (Some a, Some r) \<Rightarrow> Inr \<lparr>accessToken = a, refreshToken = r\<rparr>
      | _ \<Rightarrow> Inl JsonWebTokenError)"

text \<open>
  \<open>expiresAt.setDate(expiresAt.getDate() + 7)\<close>: seven days after the clock reading, a
  day being 86400000 ms (no daylight-saving shift in between, as on a server in UTC).
  The configuration is not consulted.
\<close>

definition storeRefreshToken :: "int \<Rightarrow> Db \<Rightarrow> string \<Rightarrow> string \<Rightarrow> Exception + Db" where
  "storeRefreshToken now db uid tok =
     (let expires = now + 7 * 86400000 in
      refreshToken_create db
        \<lparr>token = tok, userId = uid, expiresAt = expires, isRevoked = False,
         createdAt = now\<rparr>)"

text \<open>
  Every operation returns its result together with the database it leaves behind: a
  write that happened before an exception stays.
\<close>

fun register :: "Env \<Rightarrow> int \<Rightarrow> Db \<Rightarrow> RegisterDto \<Rightarrow> (Exception + AuthResponse) \<times> Db" where
  "register env now db (RegisterDto dtoEmail dtoPassword dtoFirst dtoLast) =
     (case UsersService_findByEmail db dtoEmail of
        Some existingUser \<Rightarrow>
          (Inl (ConflictException ''User with this email already exists''), db)
      | None \<Rightarrow>
          (case UsersService_create env now db
                  (RegisterDto dtoEmail dtoPassword dtoFirst dtoLast) of
             Inl e \<Rightarrow> (Inl e, db)
           | Inr (usr, db1) \<Rightarrow>
               (case generateTokens env now (asString (property usr ''id''))
                       (asString (property usr ''email'')) (asString (property usr ''role'')) of
                  Inl e \<Rightarrow> (Inl e, db1)
                | Inr tokens \<Rightarrow>
                    (case storeRefreshToken now db1 (asString (property usr ''id''))
                            (refreshToken tokens) of
                       Inl e \<Rightarrow> (Inl e, db1)
                     | Inr db2 \<Rightarrow>
                         (Inr \<lparr>accessToken = accessToken tokens,
                               refreshToken = refreshToken tokens, user = usr\<rparr>, db2)))))"

fun login :: "Env \<Rightarrow> int \<Rightarrow> Db \<Rightarrow> LoginDto \<Rightarrow> (Exception + AuthResponse) \<times> Db" where
  "login env now db (LoginDto dtoEmail dtoPassword) =
     (case UsersService_findByEmail db dtoEmail of
        None \<Rightarrow> (Inl (UnauthorizedException ''Invalid credentials''), db)
      | Some usr \<Rightarrow>
          if \<not> isActive usr then (Inl (UnauthorizedException ''Account is deactivated''), db)
          else if \<not> bcryptCompare env dtoPassword (password usr)
          then (Inl (UnauthorizedException ''Invalid credentials''), db)
          else
            (case generateTokens env now (id' usr) (email usr) (roleName (role usr)) of
               Inl e \<Rightarrow> (Inl e, db)
             | Inr tokens \<Rightarrow>
                 (case storeRefreshToken now db (id' usr) (refreshToken tokens) of
                    Inl e \<Rightarrow> (Inl e, db)
                  | Inr db1 \<Rightarrow>
                      (Inr \<lparr>accessToken = accessToken tokens,
                            refreshToken = refreshToken tokens,
                            user = omit ''password'' (toObject usr)\<rparr>, db1))))"

text \<open>The body of the \<open>try\<close> block of \<open>refreshTokens\<close>, with the exception it raises.\<close>

definition refreshTokens_try :: "Env \<Rightarrow> int \<Rightarrow> Db \<Rightarrow> string \<Rightarrow> (Exception + Tokens) \<times> Db" where
  "refreshTokens_try env now db tok =
     (case jwtVerify env tok (config env ''JWT_REFRESH_SECRET'') now of
        None \<Rightarrow> (Inl JsonWebTokenError, db)
      | Some payload \<Rightarrow>
          (case refreshToken_findUnique db tok of
             None \<Rightarrow> (Inl (UnauthorizedException ''Invalid refresh token''), db)
           | Some storedToken \<Rightarrow>
               if isRevoked storedToken
               then (Inl (UnauthorizedException ''Invalid refresh token''), db)
               else if now > expiresAt storedToken
               then (Inl (UnauthorizedException ''Refresh token expired''), db)
               else
                 (case UsersService_findById db (sub payload) of
                    Inl e \<Rightarrow> (Inl e, db)
                  | Inr usr \<Rightarrow>
                      if \<not> truthy (property usr ''isActive'')
                      then (Inl (UnauthorizedException ''Account is deactivated''), db)
                      else
                        (case refreshToken_update db tok (\<lambda>r. r\<lparr>isRevoked := True\<rparr>) of
                           Inl e \<Rightarrow> (Inl e, db)
                         | Inr db1 \<Rightarrow>
                             (case generateTokens env now (asString (property usr ''id''))
                                     (asString (property usr ''email''))
                                     (asString (property usr ''role'')) of
                                Inl e \<Rightarrow> (Inl e, db1)
                              | Inr tokens \<Rightarrow>
                                  (case storeRefreshToken now db1
                                          (asString (property usr ''id''))
                                          (refreshToken tokens) of
                                     Inl e \<Rightarrow> (Inl e, db1)
                                   | Inr db2 \<Rightarrow> (Inr tokens, db2)))))))"

text \<open>The \<open>catch\<close> clause replaces whatever was thrown in the block.\<close>

definition refreshTokens :: "Env \<Rightarrow> int \<Rightarrow> Db \<Rightarrow> string \<Rightarrow> (Exception + Tokens) \<times> Db" where
  "refreshTokens env now db tok =
     (case refreshTokens_try env now db tok of
        (Inl e, db') \<Rightarrow> (Inl (UnauthorizedException ''Invalid refresh token''), db')
      | (Inr tokens, db') \<Rightarrow> (Inr tokens, db'))"

definition logout :: "Db \<Rightarrow> string \<Rightarrow> (Exception + Message) \<times> Db" where
  "logout db tok =
     (let db' = refreshToken_updateMany db tok (\<lambda>r. r\<lparr>isRevoked := True\<rparr>)
      in (Inr (Message ''Logged out successfully''), db'))"

section \<open>AuthController\<close>

text \<open>
  \<open>register\<close>, \<open>login\<close> and \<open>refresh\<close> are public routes. \<open>logout\<close> is behind the JWT
  guard, which attaches the authenticated user to the request; the handler reads only
  the body, so \<open>caller\<close> does not occur on the right-hand side.
\<close>

definition AuthController_register ::
  "Env \<Rightarrow> int \<Rightarrow> Db \<Rightarrow> RegisterDto \<Rightarrow> (Exception + AuthResponse) \<times> Db" where
  "AuthController_register env now db registerDto = register env now db registerDto"

definition AuthController_login ::
  "Env \<Rightarrow> int \<Rightarrow> Db \<Rightarrow> LoginDto \<Rightarrow> (Exception + AuthResponse) \<times> Db" where
  "AuthController_login env now db loginDto = login env now db loginDto"

fun AuthController_refresh ::
  "Env \<Rightarrow> int \<Rightarrow> Db \<Rightarrow> RefreshTokenDto \<Rightarrow> (Exception + Tokens) \<times> Db" where
  "AuthController_refresh env now db (RefreshTokenDto t) = refreshTokens env now db t"

fun AuthController_logout ::
  "JsObject \<Rightarrow> Db \<Rightarrow> RefreshTokenDto \<Rightarrow> (Exception + Message) \<times> Db" where
  "AuthController_logout caller db (RefreshTokenDto t) = logout db t"

text \<open>
  A request to one of the four routes, and the database a request leaves behind. \<open>run\<close>
  serves a sequence of requests, each at its own clock reading.
\<close>

datatype Request =
    Register RegisterDto
  | Login LoginDto
  | Refresh RefreshTokenDto
  | Logout JsObject RefreshTokenDto

fun serve :: "Env \<Rightarrow> int \<Rightarrow> Db \<Rightarrow> Request \<Rightarrow> Db" where
  "serve env now db (Register dto) = snd (AuthController_register env now db dto)"
| "serve env now db (Login dto) = snd (AuthController_login env now db dto)"
| "serve env now db (Refresh dto) = snd (AuthController_refresh env now db dto)"
| "serve env now db (Logout caller dto) = snd (AuthController_logout caller db dto)"

fun run :: "Env \<Rightarrow> Db \<Rightarrow> (int \<times> Request) list \<Rightarrow> Db" where
  "run env db [] = db"
| "run env db ((now, req) # reqs) = run env (serve env now db req) reqs"

section \<open>Predicates on the refresh-token table\<close>

text \<open>
  \<open>only_revoked old new\<close>: the row is as it was, or differs by \<open>isRevoked = true\<close> alone.
  \<open>kept old new\<close>: every row of the old table is still at its place in the new one, changed
  at most in that way. \<open>revoked_in t rows\<close>: the row that \<open>findUnique\<close> returns for the token
  \<open>t\<close> exists and is revoked.
\<close>

definition only_revoked :: "RefreshToken \<Rightarrow> RefreshToken \<Rightarrow> bool" where
  "only_revoked old new = (new = old \<or> new = old\<lparr>isRevoked := True\<rparr>)"

definition kept :: "RefreshToken list \<Rightarrow> RefreshToken list \<Rightarrow> bool" where
  "kept old new =
     (length old \<le> length new \<and> list_all2 only_revoked old (take (length old) new))"

definition revoked_in :: "string \<Rightarrow> RefreshToken list \<Rightarrow> bool" where
  "revoked_in t rows =
     (case find (\<lambda>r. token r = t) rows of None \<Rightarrow> False | Some r \<Rightarrow> isRevoked r)"

section \<open>Test doubles\<close>

text \<open>
  Concrete collaborators for the examples: a signer that writes the subject, the secret
  and the lifetime it was given into the token, a verifier that accepts one token, a
  hash that prefixes the password, and ids numbered by the size of the table.
\<close>

definition stubConfig :: "string \<Rightarrow> string option" where
  "stubConfig k =
     (if k = ''JWT_SECRET'' then Some ''as''
      else if k = ''JWT_REFRESH_SECRET'' then Some ''rs''
      else None)"

fun stubSign :: "JwtPayload \<Rightarrow> string option \<Rightarrow> string \<Rightarrow> int \<Rightarrow> string option" where
  "stubSign (JwtPayload s e r) (Some k) expiresIn now = Some (s @ ''.'' @ k @ ''.'' @ expiresIn)"
| "stubSign p None expiresIn now = None"

definition stubVerify :: "string \<Rightarrow> string option \<Rightarrow> int \<Rightarrow> JwtPayload option" where
  "stubVerify t secret now =
     (if t = ''rt0'' \<and> secret = Some ''rs''
      then Some (JwtPayload ''u1'' ''al@x.io'' ''USER'') else None)"

definition stubEnv :: Env where
  "stubEnv =
     \<lparr>config = stubConfig, jwtSign = stubSign, jwtVerify = stubVerify,
      bcryptHash = (\<lambda>p cost. ''h:'' @ p),
      bcryptCompare = (\<lambda>p h. h = ''h:'' @ p),
      newId = (\<lambda>rows. ''u'' @ replicate (length rows) (CHR ''i'')),
      defaultRole = USER, defaultIsActive = True\<rparr>"

text \<open>The same collaborators with a refresh-token lifetime of thirty days configured.\<close>

definition stubEnv30 :: Env where
  "stubEnv30 =
     stubEnv\<lparr>config := (\<lambda>k. if k = ''JWT_REFRESH_TOKEN_EXPIRATION'' then Some ''30d''
                              else stubConfig k)\<rparr>"

definition alice :: User where
  "alice =
     \<lparr>id' = ''u1'', email = ''al@x.io'', password = ''h:pw1'', firstName = Some ''Al'',
      lastName = None, role = USER, isActive = True, createdAt' = 0, updatedAt = 0\<rparr>"

definition bob :: User where
  "bob =
     \<lparr>id' = ''u2'', email = ''bo@x.io'', password = ''h:pw2'', firstName = None,
      lastName = None, role = ADMIN, isActive = False, createdAt' = 0, updatedAt = 0\<rparr>"

definition rt0 :: RefreshToken where
  "rt0 = \<lparr>token = ''rt0'', userId = ''u1'', expiresAt = 1000, isRevoked = False,
          createdAt = 0\<rparr>"

definition db0 :: Db where
  "db0 = \<lparr>user_table = [alice, bob], refreshToken_table = [rt0]\<rparr>"

text \<open>
  A database in which the tokens that the signer would issue next are already stored,
  the user \<open>cy\<close> that a registration creates, and the objects returned for two users.
\<close>

definition db1 :: Db where
  "db1 =
     \<lparr>user_table = [alice, bob],
      refreshToken_table =
        [rt0,
         \<lparr>token = ''u1.rs.7d'', userId = ''u1'', expiresAt = 9000, isRevoked = False,
          createdAt = 1\<rparr>,
         \<lparr>token = ''uii.rs.7d'', userId = ''u1'', expiresAt = 9000, isRevoked = False,
          createdAt = 1\<rparr>]\<rparr>"

definition cy :: User where
  "cy =
     \<lparr>id' = ''uii'', email = ''cy@x.io'', password = ''h:pw3'', firstName = None,
      lastName = None, role = USER, isActive = True, createdAt' = 5, updatedAt = 5\<rparr>"

definition aliceObject :: JsObject where
  "aliceObject =
     [(''id'', JsString ''u1''), (''email'', JsString ''al@x.io''),
      (''firstName'', JsString ''Al''), (''lastName'', JsNull),
      (''role'', JsString ''USER''), (''isActive'', JsBool True),
      (''createdAt'', JsDate 0), (''updatedAt'', JsDate 0)]"

definition cyObject :: JsObject where
  "cyObject =
     [(''id'', JsString ''uii''), (''email'', JsString ''cy@x.io''),
      (''firstName'', JsNull), (''lastName'', JsNull),
      (''role'', JsString ''USER''), (''isActive'', JsBool True),
      (''createdAt'', JsDate 5), (''updatedAt'', JsDate 5)]"

section \<open>Evaluation of the examples\<close>

lemmas stub_defs =
  stubEnv_def stubEnv30_def stubVerify_def stubConfig_def db0_def db1_def rt0_def alice_def
  bob_def cy_def aliceObject_def cyObject_def

lemmas model_defs =
  UsersService_findByEmail_def user_findUnique_email_def UsersService_findById_def
  user_findUnique_id_def user_create_def user_update_def UsersService_update_def
  UsersService_assignRole_def UsersService_findAll_def refreshToken_findUnique_def
  refreshToken_update_def refreshToken_create_def generateTokens_def storeRefreshToken_def
  orDefault_def select_def omit_def userSelect_def toObject_def property_def optString_def
  keys_def

lemma stub_lookup:
  "UsersService_findByEmail db0 ''al@x.io'' = Some alice"
  "UsersService_findByEmail db0 ''bo@x.io'' = Some bob"
  "UsersService_findByEmail db0 ''zz@x.io'' = None"
  by (simp_all add: UsersService_findByEmail_def user_findUnique_email_def db0_def
        alice_def bob_def)

lemma login_example:
  "login stubEnv 5 db0 (LoginDto ''al@x.io'' ''pw1'') =
     (Inr \<lparr>accessToken = ''u1.as.15m'', refreshToken = ''u1.rs.7d'', user = aliceObject\<rparr>,
      \<lparr>user_table = [alice, bob],
       refreshToken_table =
         [rt0, \<lparr>token = ''u1.rs.7d'', userId = ''u1'', expiresAt = 604800005,
                isRevoked = False, createdAt = 5\<rparr>]\<rparr>)"
  by (simp add: stub_defs model_defs)

lemma login30_example:
  "login stubEnv30 5 db0 (LoginDto ''al@x.io'' ''pw1'') =
     (Inr \<lparr>accessToken = ''u1.as.15m'', refreshToken = ''u1.rs.30d'', user = aliceObject\<rparr>,
      \<lparr>user_table = [alice, bob],
       refreshToken_table =
         [rt0, \<lparr>token = ''u1.rs.30d'', userId = ''u1'', expiresAt = 604800005,
                isRevoked = False, createdAt = 5\<rparr>]\<rparr>)"
  by (simp add: stub_defs model_defs)

lemma register_example:
  "register stubEnv 5 db0 (RegisterDto ''cy@x.io'' ''pw3'' None None) =
     (Inr \<lparr>accessToken = ''uii.as.15m'', refreshToken = ''uii.rs.7d'', user = cyObject\<rparr>,
      \<lparr>user_table = [alice, bob, cy],
       refreshToken_table =
         [rt0, \<lparr>token = ''uii.rs.7d'', userId = ''uii'', expiresAt = 604800005,
                isRevoked = False, createdAt = 5\<rparr>]\<rparr>)"
  by (simp add: stub_defs model_defs)

lemma users_examples:
  "UsersService_findById db0 ''u1'' = Inr aliceObject"
  "UsersService_findAll db0 ! 0 = aliceObject"
  "UsersService_update db0 ''u1'' (\<lambda>u. u\<lparr>updatedAt := 0\<rparr>) = Inr (aliceObject, db0)"
  "UsersService_assignRole db0 ''u1'' USER = Inr (aliceObject, db0)"
  by (simp_all add: stub_defs model_defs)

lemma refresh_example:
  "refreshTokens stubEnv 500 db0 ''rt0'' =
     (Inr \<lparr>accessToken = ''u1.as.15m'', refreshToken = ''u1.rs.7d''\<rparr>,
      \<lparr>user_table = [alice, bob],
       refreshToken_table =
         [rt0\<lparr>isRevoked := True\<rparr>,
          \<lparr>token = ''u1.rs.7d'', userId = ''u1'', expiresAt = 604800500, isRevoked = False,
           createdAt = 500\<rparr>]\<rparr>)"
  by (simp add: refreshTokens_def refreshTokens_try_def stubEnv_def stubVerify_def
        stubConfig_def db0_def refreshToken_findUnique_def rt0_def UsersService_findById_def
        user_findUnique_id_def alice_def bob_def select_def userSelect_def toObject_def
        property_def refreshToken_update_def generateTokens_def orDefault_def
        storeRefreshToken_def refreshToken_create_def optString_def)

lemma login_dup_example:
  "UsersService_findByEmail db1 ''al@x.io'' = Some alice"
  "isActive alice"
  "bcryptCompare stubEnv ''pw1'' (password alice)"
  "generateTokens stubEnv 5 (id' alice) (email alice) (roleName (role alice)) =
     Inr \<lparr>accessToken = ''u1.as.15m'', refreshToken = ''u1.rs.7d''\<rparr>"
  "storeRefreshToken 5 db1 (id' alice)
     (refreshToken \<lparr>accessToken = ''u1.as.15m'', refreshToken = ''u1.rs.7d''\<rparr>) =
     Inl (PrismaClientKnownRequestError ''P2002'')"
  by (simp_all add: stub_defs model_defs)

lemma register_dup_example:
  "UsersService_findByEmail db1 ''cy@x.io'' = None"
  "UsersService_create stubEnv 5 db1 (RegisterDto ''cy@x.io'' ''pw3'' None None) =
     Inr (cyObject, db1\<lparr>user_table := [alice, bob, cy]\<rparr>)"
  "generateTokens stubEnv 5 (asString (property cyObject ''id''))
     (asString (property cyObject ''email'')) (asString (property cyObject ''role'')) =
     Inr \<lparr>accessToken = ''uii.as.15m'', refreshToken = ''uii.rs.7d''\<rparr>"
  "storeRefreshToken 5 (db1\<lparr>user_table := [alice, bob, cy]\<rparr>)
     (asString (property cyObject ''id''))
     (refreshToken \<lparr>accessToken = ''uii.as.15m'', refreshToken = ''uii.rs.7d''\<rparr>) =
     Inl (PrismaClientKnownRequestError ''P2002'')"
  by (simp_all add: stub_defs model_defs)

section \<open>Objects returned to the caller\<close>

lemma keys_selected:
  "keys (select userSelect (toObject u)) =
     [''id'', ''email'', ''firstName'', ''lastName'', ''role'', ''isActive'', ''createdAt'',
      ''updatedAt'']"
  by (simp add: keys_def select_def userSelect_def toObject_def)

lemma keys_omit_password:
  "keys (omit ''password'' (toObject u)) =
     [''id'', ''email'', ''firstName'', ''lastName'', ''role'', ''isActive'', ''createdAt'',
      ''updatedAt'']"
  by (simp add: keys_def omit_def toObject_def)

lemma selected_fields:
  "asString (property (select userSelect (toObject u)) ''id'') = id' u"
  "asString (property (select userSelect (toObject u)) ''email'') = email u"
  "asString (property (select userSelect (toObject u)) ''role'') = roleName (role u)"
  "truthy (property (select userSelect (toObject u)) ''isActive'') = isActive u"
  by (simp_all add: property_def select_def userSelect_def toObject_def)

lemma omitted_id: "asString (property (omit ''password'' (toObject u)) ''id'') = id' u"
  by (simp add: property_def omit_def toObject_def)

lemma login_user_keys:
  "fst (login env now db dto) = Inr resp \<Longrightarrow>
     \<exists>u. user resp = omit ''password'' (toObject u)"
  by (cases dto) (auto split: option.splits sum.splits if_splits)

lemma UsersService_create_object:
  "UsersService_create env now db dto = Inr (usr, db') \<Longrightarrow>
     \<exists>u. usr = select userSelect (toObject u)"
  by (cases dto) (auto simp: Let_def split: sum.splits)

lemma register_user_keys:
  "fst (register env now db dto) = Inr resp \<Longrightarrow>
     \<exists>u. user resp = select userSelect (toObject u)"
  by (cases dto)
     (auto split: option.splits sum.splits prod.splits dest!: UsersService_create_object
        simp del: UsersService_create.simps)

lemma findById_object:
  "UsersService_findById db i = Inr obj \<Longrightarrow> \<exists>u. obj = select userSelect (toObject u)"
  by (auto simp: UsersService_findById_def split: option.splits)

lemma update_object:
  "UsersService_update db i data = Inr (obj, db') \<Longrightarrow>
     \<exists>u. obj = select userSelect (toObject u)"
  by (auto simp: UsersService_update_def split: sum.splits)

lemma assignRole_object:
  "UsersService_assignRole db i r = Inr (obj, db') \<Longrightarrow>
     \<exists>u. obj = select userSelect (toObject u)"
  by (auto simp: UsersService_assignRole_def split: sum.splits)

text \<open>
  C9. No user object of a successful response has a \<open>password\<close> property: not the one
  \<open>login\<close> returns after removing that property from the row, and not the ones that
  \<open>register\<close>, \<open>findById\<close>, \<open>findAll\<close>, \<open>update\<close> and \<open>assignRole\<close> obtain through
  \<open>userSelect\<close>, a selection that does not select \<open>password\<close>.
\<close>

theorem responses_never_carry_the_password:
  "(fst (login env now db ldto) = Inr resp \<longrightarrow> ''password'' \<notin> set (keys (user resp))) \<and>
   (fst (register env now db rdto) = Inr resp' \<longrightarrow> ''password'' \<notin> set (keys (user resp'))) \<and>
   (UsersService_findById db i = Inr obj \<longrightarrow> ''password'' \<notin> set (keys obj)) \<and>
   (\<forall>obj \<in> set (UsersService_findAll db). ''password'' \<notin> set (keys obj)) \<and>
   (UsersService_update db i data = Inr (obj', db') \<longrightarrow> ''password'' \<notin> set (keys obj')) \<and>
   (UsersService_assignRole db i r = Inr (obj'', db'') \<longrightarrow>
      ''password'' \<notin> set (keys obj'')) \<and>
   map_of userSelect ''password'' = None"
proof (intro conjI impI ballI)
  assume "fst (login env now db ldto) = Inr resp"
  then obtain u where "user resp = omit ''password'' (toObject u)"
    by (auto dest: login_user_keys)
  then show "''password'' \<notin> set (keys (user resp))" by (simp add: keys_omit_password)
next
  assume "fst (register env now db rdto) = Inr resp'"
  then obtain u where "user resp' = select userSelect (toObject u)"
    by (auto dest: register_user_keys)
  then show "''password'' \<notin> set (keys (user resp'))" by (simp add: keys_selected)
next
  assume "UsersService_findById db i = Inr obj"
  then obtain u where "obj = select userSelect (toObject u)"
    by (auto dest: findById_object)
  then show "''password'' \<notin> set (keys obj)" by (simp add: keys_selected)
next
  fix ob assume "ob \<in> set (UsersService_findAll db)"
  then obtain u where "ob = select userSelect (toObject u)"
    by (auto simp: UsersService_findAll_def)
  then show "''password'' \<notin> set (keys ob)" by (simp add: keys_selected)
next
  assume "UsersService_update db i data = Inr (obj', db')"
  then obtain u where "obj' = select userSelect (toObject u)"
    by (auto dest: update_object)
  then show "''password'' \<notin> set (keys obj')" by (simp add: keys_selected)
next
  assume "UsersService_assignRole db i r = Inr (obj'', db'')"
  then obtain u where "obj'' = select userSelect (toObject u)"
    by (auto dest: assignRole_object)
  then show "''password'' \<notin> set (keys obj'')" by (simp add: keys_selected)
next
  show "map_of userSelect ''password'' = None" by (simp add: userSelect_def)
qed

theorem responses_never_carry_the_password_witness:
  "fst (login stubEnv 5 db0 (LoginDto ''al@x.io'' ''pw1'')) =
     Inr \<lparr>accessToken = ''u1.as.15m'', refreshToken = ''u1.rs.7d'', user = aliceObject\<rparr> \<and>
   fst (register stubEnv 5 db0 (RegisterDto ''cy@x.io'' ''pw3'' None None)) =
     Inr \<lparr>accessToken = ''uii.as.15m'', refreshToken = ''uii.rs.7d'', user = cyObject\<rparr> \<and>
   UsersService_findById db0 ''u1'' = Inr aliceObject \<and>
   aliceObject \<in> set (UsersService_findAll db0) \<and>
   UsersService_update db0 ''u1'' (\<lambda>u. u\<lparr>updatedAt := 0\<rparr>) = Inr (aliceObject, db0) \<and>
   UsersService_assignRole db0 ''u1'' USER = Inr (aliceObject, db0) \<and>
   password alice = ''h:pw1'' \<and>
   ''password'' \<notin> set (keys aliceObject) \<and> ''password'' \<notin> set (keys cyObject)"
proof -
  have l: "fst (login stubEnv 5 db0 (LoginDto ''al@x.io'' ''pw1'')) =
     Inr \<lparr>accessToken = ''u1.as.15m'', refreshToken = ''u1.rs.7d'', user = aliceObject\<rparr>"
    by (simp only: login_example fst_conv)
  have r: "fst (register stubEnv 5 db0 (RegisterDto ''cy@x.io'' ''pw3'' None None)) =
     Inr \<lparr>accessToken = ''uii.as.15m'', refreshToken = ''uii.rs.7d'', user = cyObject\<rparr>"
    by (simp only: register_example fst_conv)
  have m: "aliceObject \<in> set (UsersService_findAll db0)"
    by (simp add: stub_defs model_defs)
  have p: "password alice = ''h:pw1''" by (simp add: alice_def)
  note t = responses_never_carry_the_password
    [where env = stubEnv and now = 5 and db = db0 and ldto = "LoginDto ''al@x.io'' ''pw1''"
       and resp = "\<lparr>accessToken = ''u1.as.15m'', refreshToken = ''u1.rs.7d'', user = aliceObject\<rparr>"
       and rdto = "RegisterDto ''cy@x.io'' ''pw3'' None None"
       and resp' = "\<lparr>accessToken = ''uii.as.15m'', refreshToken = ''uii.rs.7d'', user = cyObject\<rparr>"
       and i = "''u1''" and obj = aliceObject and data = "\<lambda>u. u\<lparr>updatedAt := 0\<rparr>"
       and obj' = aliceObject and db' = db0 and r = USER and obj'' = aliceObject
       and db'' = db0]
  from t l have a: "''password'' \<notin> set (keys aliceObject)" by simp
  from t r have c: "''password'' \<notin> set (keys cyObject)" by simp
  from l r users_examples(1) m users_examples(3) users_examples(4) p a c
  show ?thesis by blast
qed

section \<open>Login\<close>

text \<open>
  C8. \<open>login\<close> does not tell an unknown email from a wrong password: when no user has the
  email, and when an active user has it and the password does not match, the result is
  the same \<open>InvalidCredentialsError\<close>, and the database is left as it was.
\<close>

theorem login_same_error_for_unknown_email_and_wrong_password:
  "(UsersService_findByEmail db mail = None \<longrightarrow>
      login env now db (LoginDto mail pw) = (Inl InvalidCredentialsError, db)) \<and>
   (UsersService_findByEmail db mail' = Some u \<and> isActive u \<and>
      \<not> bcryptCompare env pw' (password u) \<longrightarrow>
      login env now' db (LoginDto mail' pw') = (Inl InvalidCredentialsError, db))"
  by simp

theorem login_same_error_witness:
  "UsersService_findByEmail db0 ''zz@x.io'' = None \<and>
   UsersService_findByEmail db0 ''al@x.io'' = Some alice \<and> isActive alice \<and>
   \<not> bcryptCompare stubEnv ''bad'' (password alice) \<and>
   login stubEnv 5 db0 (LoginDto ''zz@x.io'' ''pw1'') = (Inl InvalidCredentialsError, db0) \<and>
   login stubEnv 5 db0 (LoginDto ''al@x.io'' ''bad'') = (Inl InvalidCredentialsError, db0) \<and>
   fst (login stubEnv 5 db0 (LoginDto ''zz@x.io'' ''pw1'')) =
     fst (login stubEnv 5 db0 (LoginDto ''al@x.io'' ''bad''))"
proof -
  have a: "UsersService_findByEmail db0 ''zz@x.io'' = None" by (rule stub_lookup)
  have b: "UsersService_findByEmail db0 ''al@x.io'' = Some alice \<and> isActive alice \<and>
           \<not> bcryptCompare stubEnv ''bad'' (password alice)"
    by (simp add: stub_lookup alice_def stubEnv_def)
  from login_same_error_for_unknown_email_and_wrong_password
         [of db0 "''zz@x.io''" stubEnv 5 "''pw1''" "''al@x.io''" alice "''bad''" 5] a b
  show ?thesis by simp
qed

text \<open>
  C3, as the specification states it: a deactivated user who supplies a wrong password
  gets \<open>InvalidCredentialsError\<close>. The code answers \<open>AccountInactiveError\<close>: for the
  deactivated user \<open>bob\<close> and a password that does not match, \<open>login\<close> raises
  "Account is deactivated".
\<close>

theorem login_inactive_wrong_password_counterexample:
  "UsersService_findByEmail db0 ''bo@x.io'' = Some bob \<and> \<not> isActive bob \<and>
   \<not> bcryptCompare stubEnv ''bad'' (password bob) \<and>
   fst (login stubEnv 5 db0 (LoginDto ''bo@x.io'' ''bad'')) = Inl AccountInactiveError \<and>
   fst (login stubEnv 5 db0 (LoginDto ''bo@x.io'' ''bad'')) \<noteq> Inl InvalidCredentialsError"
  by (simp add: stub_lookup bob_def stubEnv_def)

text \<open>
  C3, amended: \<open>login\<close> checks the active flag before it compares the password. A
  deactivated user gets \<open>AccountInactiveError\<close> whatever password is supplied, and the
  wrong password of a user yields \<open>InvalidCredentialsError\<close> when that user is active.
\<close>

theorem login_checks_active_before_password:
  "(UsersService_findByEmail db mail = Some u \<and> \<not> isActive u \<longrightarrow>
      login env now db (LoginDto mail pw) = (Inl AccountInactiveError, db)) \<and>
   (UsersService_findByEmail db mail = Some u \<and> isActive u \<and>
      \<not> bcryptCompare env pw (password u) \<longrightarrow>
      login env now db (LoginDto mail pw) = (Inl InvalidCredentialsError, db))"
  by simp

theorem login_checks_active_before_password_witness:
  "login stubEnv 5 db0 (LoginDto ''bo@x.io'' ''bad'') = (Inl AccountInactiveError, db0) \<and>
   login stubEnv 5 db0 (LoginDto ''bo@x.io'' ''pw2'') = (Inl AccountInactiveError, db0) \<and>
   bcryptCompare stubEnv ''pw2'' (password bob) \<and>
   login stubEnv 5 db0 (LoginDto ''al@x.io'' ''bad'') = (Inl InvalidCredentialsError, db0)"
proof -
  have a: "UsersService_findByEmail db0 ''bo@x.io'' = Some bob \<and> \<not> isActive bob"
    by (simp add: stub_lookup bob_def)
  have b: "UsersService_findByEmail db0 ''al@x.io'' = Some alice \<and> isActive alice \<and>
           \<not> bcryptCompare stubEnv ''bad'' (password alice)"
    by (simp add: stub_lookup alice_def stubEnv_def)
  have c: "bcryptCompare stubEnv ''pw2'' (password bob)"
    by (simp add: bob_def stubEnv_def)
  from login_checks_active_before_password [of db0 "''bo@x.io''" bob stubEnv 5 "''bad''"]
       login_checks_active_before_password [of db0 "''bo@x.io''" bob stubEnv 5 "''pw2''"]
       login_checks_active_before_password [of db0 "''al@x.io''" alice stubEnv 5 "''bad''"]
       a b c
  show ?thesis by simp
qed

section \<open>Issuing a token pair\<close>

lemma storeRefreshToken_table:
  "storeRefreshToken now db uid t = Inr db' \<Longrightarrow>
     refreshToken_table db' =
       refreshToken_table db @
         [\<lparr>token = t, userId = uid, expiresAt = now + 604800000, isRevoked = False,
           createdAt = now\<rparr>] \<and>
     user_table db' = user_table db"
  by (auto simp: storeRefreshToken_def refreshToken_create_def split: if_splits)

lemma refreshToken_update_table:
  "refreshToken_update db t f = Inr db' \<Longrightarrow>
     refreshToken_table db' = update_first (\<lambda>r. token r = t) f (refreshToken_table db) \<and>
     user_table db' = user_table db"
  by (auto simp: refreshToken_update_def split: option.splits)

lemma UsersService_create_table:
  "UsersService_create env now db dto = Inr (usr, db') \<Longrightarrow>
     refreshToken_table db' = refreshToken_table db"
  by (cases dto) (auto simp: user_create_def Let_def split: if_splits sum.splits)

lemma generateTokens_signs:
  "generateTokens env now uid mail rn = Inr tokens \<Longrightarrow>
     jwtSign env (JwtPayload uid mail rn) (config env ''JWT_REFRESH_SECRET'')
       (orDefault (config env ''JWT_REFRESH_TOKEN_EXPIRATION'') ''7d'') now =
       Some (refreshToken tokens) \<and>
     jwtSign env (JwtPayload uid mail rn) (config env ''JWT_SECRET'')
       (orDefault (config env ''JWT_ACCESS_TOKEN_EXPIRATION'') ''15m'') now =
       Some (accessToken tokens)"
  by (auto simp: generateTokens_def Let_def split: option.splits)

text \<open>
  C4. The specification asks that the stored record expire when the signed refresh token
  does, for every configured lifetime. \<open>register\<close>, \<open>login\<close> and \<open>refreshTokens\<close> issue a
  pair by \<open>generateTokens\<close> followed by \<open>storeRefreshToken\<close>: the refresh token is signed
  with the configured lifetime (\<open>7d\<close> when none is configured), while the record that is
  appended expires seven days after the clock reading whatever was configured. The
  record is created with \<open>isRevoked = false\<close>. With thirty days configured the token is
  signed for \<open>30d\<close> and its record still expires after seven days.
\<close>

theorem stored_expiry_is_seven_days_whatever_lifetime_is_signed:
  "generateTokens env now uid mail rn = Inr tokens \<and>
   storeRefreshToken now db uid (refreshToken tokens) = Inr db' \<longrightarrow>
     jwtSign env (JwtPayload uid mail rn) (config env ''JWT_REFRESH_SECRET'')
       (orDefault (config env ''JWT_REFRESH_TOKEN_EXPIRATION'') ''7d'') now =
       Some (refreshToken tokens) \<and>
     refreshToken_table db' =
       refreshToken_table db @
         [\<lparr>token = refreshToken tokens, userId = uid, expiresAt = now + 7 * 86400000,
           isRevoked = False, createdAt = now\<rparr>]"
  by (auto dest: generateTokens_signs storeRefreshToken_table)

theorem stored_expiry_witness:
  "orDefault (config stubEnv30 ''JWT_REFRESH_TOKEN_EXPIRATION'') ''7d'' = ''30d'' \<and>
   generateTokens stubEnv30 5 ''u1'' ''al@x.io'' ''USER'' =
     Inr \<lparr>accessToken = ''u1.as.15m'', refreshToken = ''u1.rs.30d''\<rparr> \<and>
   jwtSign stubEnv30 (JwtPayload ''u1'' ''al@x.io'' ''USER'')
     (config stubEnv30 ''JWT_REFRESH_SECRET'') ''30d'' 5 = Some ''u1.rs.30d'' \<and>
   storeRefreshToken 5 db0 ''u1'' ''u1.rs.30d'' =
     Inr (db0\<lparr>refreshToken_table :=
               [rt0, \<lparr>token = ''u1.rs.30d'', userId = ''u1'', expiresAt = 604800005,
                      isRevoked = False, createdAt = 5\<rparr>]\<rparr>) \<and>
   login stubEnv30 5 db0 (LoginDto ''al@x.io'' ''pw1'') =
     (Inr \<lparr>accessToken = ''u1.as.15m'', refreshToken = ''u1.rs.30d'', user = aliceObject\<rparr>,
      db0\<lparr>refreshToken_table :=
               [rt0, \<lparr>token = ''u1.rs.30d'', userId = ''u1'', expiresAt = 604800005,
                      isRevoked = False, createdAt = 5\<rparr>]\<rparr>)"
proof -
  have a: "orDefault (config stubEnv30 ''JWT_REFRESH_TOKEN_EXPIRATION'') ''7d'' = ''30d''"
    by (simp add: stub_defs model_defs)
  have b: "generateTokens stubEnv30 5 ''u1'' ''al@x.io'' ''USER'' =
     Inr \<lparr>accessToken = ''u1.as.15m'', refreshToken = ''u1.rs.30d''\<rparr>"
    by (simp add: stub_defs model_defs)
  have c: "storeRefreshToken 5 db0 ''u1''
      (refreshToken \<lparr>accessToken = ''u1.as.15m'', refreshToken = ''u1.rs.30d''\<rparr>) =
     Inr (db0\<lparr>refreshToken_table :=
               [rt0, \<lparr>token = ''u1.rs.30d'', userId = ''u1'', expiresAt = 604800005,
                      isRevoked = False, createdAt = 5\<rparr>]\<rparr>)"
    by (simp add: stub_defs model_defs)
  note t = stored_expiry_is_seven_days_whatever_lifetime_is_signed
    [where env = stubEnv30 and now = 5 and uid = "''u1''" and mail = "''al@x.io''"
       and rn = "''USER''"
       and tokens = "\<lparr>accessToken = ''u1.as.15m'', refreshToken = ''u1.rs.30d''\<rparr>"
       and db = db0
       and db' = "db0\<lparr>refreshToken_table :=
               [rt0, \<lparr>token = ''u1.rs.30d'', userId = ''u1'', expiresAt = 604800005,
                      isRevoked = False, createdAt = 5\<rparr>]\<rparr>"]
  from t b c have d: "jwtSign stubEnv30 (JwtPayload ''u1'' ''al@x.io'' ''USER'')
     (config stubEnv30 ''JWT_REFRESH_SECRET'') ''30d'' 5 = Some ''u1.rs.30d''"
    unfolding a by simp
  have e: "login stubEnv30 5 db0 (LoginDto ''al@x.io'' ''pw1'') =
     (Inr \<lparr>accessToken = ''u1.as.15m'', refreshToken = ''u1.rs.30d'', user = aliceObject\<rparr>,
      db0\<lparr>refreshToken_table :=
               [rt0, \<lparr>token = ''u1.rs.30d'', userId = ''u1'', expiresAt = 604800005,
                      isRevoked = False, createdAt = 5\<rparr>]\<rparr>)"
    unfolding login30_example by (simp add: db0_def)
  from c have c': "storeRefreshToken 5 db0 ''u1'' ''u1.rs.30d'' =
     Inr (db0\<lparr>refreshToken_table :=
               [rt0, \<lparr>token = ''u1.rs.30d'', userId = ''u1'', expiresAt = 604800005,
                      isRevoked = False, createdAt = 5\<rparr>]\<rparr>)"
    by simp
  from a b d c' e show ?thesis by blast
qed

lemma register_success_pair:
  "register env now db dto = (Inr resp, db') \<Longrightarrow>
     refreshToken_table db' =
       refreshToken_table db @
         [\<lparr>token = refreshToken resp, userId = asString (property (user resp) ''id''),
           expiresAt = now + 604800000, isRevoked = False, createdAt = now\<rparr>]"
  by (cases dto)
     (auto split: option.splits sum.splits prod.splits
        dest!: UsersService_create_table storeRefreshToken_table
        simp del: UsersService_create.simps)

lemma login_success_pair:
  "login env now db dto = (Inr resp, db') \<Longrightarrow>
     refreshToken_table db' =
       refreshToken_table db @
         [\<lparr>token = refreshToken resp, userId = asString (property (user resp) ''id''),
           expiresAt = now + 604800000, isRevoked = False, createdAt = now\<rparr>]"
  by (cases dto)
     (auto split: option.splits sum.splits if_splits
        dest!: storeRefreshToken_table simp: omitted_id)

lemma register_success_table:
  assumes "fst (register env now db dto) = Inr resp"
  shows "refreshToken_table (snd (register env now db dto)) =
           refreshToken_table db @
             [\<lparr>token = refreshToken resp, userId = asString (property (user resp) ''id''),
               expiresAt = now + 604800000, isRevoked = False, createdAt = now\<rparr>]"
proof -
  from assms have "register env now db dto = (Inr resp, snd (register env now db dto))"
    by (metis prod.collapse)
  then show ?thesis by (rule register_success_pair)
qed

lemma login_success_table:
  assumes "fst (login env now db dto) = Inr resp"
  shows "refreshToken_table (snd (login env now db dto)) =
           refreshToken_table db @
             [\<lparr>token = refreshToken resp, userId = asString (property (user resp) ''id''),
               expiresAt = now + 604800000, isRevoked = False, createdAt = now\<rparr>]"
proof -
  from assms have "login env now db dto = (Inr resp, snd (login env now db dto))"
    by (metis prod.collapse)
  then show ?thesis by (rule login_success_pair)
qed

lemma register_store_failure:
  "UsersService_findByEmail db m = None \<Longrightarrow>
   UsersService_create env now db (RegisterDto m p f l) = Inr (usr, dbu) \<Longrightarrow>
   generateTokens env now (asString (property usr ''id'')) (asString (property usr ''email''))
     (asString (property usr ''role'')) = Inr tokens \<Longrightarrow>
   storeRefreshToken now dbu (asString (property usr ''id'')) (refreshToken tokens) = Inl e \<Longrightarrow>
   register env now db (RegisterDto m p f l) = (Inl e, dbu)"
  by (simp del: UsersService_create.simps)

lemma login_store_failure:
  "UsersService_findByEmail db m = Some u \<Longrightarrow> isActive u \<Longrightarrow>
   bcryptCompare env p (password u) \<Longrightarrow>
   generateTokens env now (id' u) (email u) (roleName (role u)) = Inr tokens \<Longrightarrow>
   storeRefreshToken now db (id' u) (refreshToken tokens) = Inl e \<Longrightarrow>
   login env now db (LoginDto m p) = (Inl e, db)"
  by simp

text \<open>
  C5. \<open>register\<close> and \<open>login\<close> return a token pair only together with its record: when
  either succeeds, the table afterwards is the table before followed by one record for
  the returned refresh token, owned by the returned user and not revoked. When the write
  of that record fails, the operation fails with the error of the write and returns no
  pair.
\<close>

theorem token_pair_only_with_persisted_record:
  "(fst (register env now db rdto) = Inr resp \<longrightarrow>
      refreshToken_table (snd (register env now db rdto)) =
        refreshToken_table db @
          [\<lparr>token = refreshToken resp, userId = asString (property (user resp) ''id''),
            expiresAt = now + 604800000, isRevoked = False, createdAt = now\<rparr>]) \<and>
   (fst (login env now db ldto) = Inr resp' \<longrightarrow>
      refreshToken_table (snd (login env now db ldto)) =
        refreshToken_table db @
          [\<lparr>token = refreshToken resp', userId = asString (property (user resp') ''id''),
            expiresAt = now + 604800000, isRevoked = False, createdAt = now\<rparr>]) \<and>
   (UsersService_findByEmail db m = None \<and>
    UsersService_create env now db (RegisterDto m p f l) = Inr (usr, dbu) \<and>
    generateTokens env now (asString (property usr ''id'')) (asString (property usr ''email''))
      (asString (property usr ''role'')) = Inr tokens \<and>
    storeRefreshToken now dbu (asString (property usr ''id'')) (refreshToken tokens) = Inl e \<longrightarrow>
      register env now db (RegisterDto m p f l) = (Inl e, dbu)) \<and>
   (UsersService_findByEmail db m' = Some u \<and> isActive u \<and>
    bcryptCompare env p' (password u) \<and>
    generateTokens env now (id' u) (email u) (roleName (role u)) = Inr tokens' \<and>
    storeRefreshToken now db (id' u) (refreshToken tokens') = Inl e' \<longrightarrow>
      login env now db (LoginDto m' p') = (Inl e', db))"
  using register_success_table [of env now db rdto resp]
        login_success_table [of env now db ldto resp']
        register_store_failure [where db = db and m = m and env = env and now = now and p = p
          and f = f and l = l and usr = usr and dbu = dbu and tokens = tokens and e = e]
        login_store_failure [where db = db and m = m' and u = u and env = env and p = p'
          and now = now and tokens = tokens' and e = e']
  by blast

theorem token_pair_only_with_persisted_record_witness:
  "fst (register stubEnv 5 db0 (RegisterDto ''cy@x.io'' ''pw3'' None None)) =
     Inr \<lparr>accessToken = ''uii.as.15m'', refreshToken = ''uii.rs.7d'', user = cyObject\<rparr> \<and>
   refreshToken_table (snd (register stubEnv 5 db0 (RegisterDto ''cy@x.io'' ''pw3'' None None))) =
     refreshToken_table db0 @
       [\<lparr>token = ''uii.rs.7d'', userId = ''uii'', expiresAt = 604800005, isRevoked = False,
         createdAt = 5\<rparr>] \<and>
   fst (login stubEnv 5 db0 (LoginDto ''al@x.io'' ''pw1'')) =
     Inr \<lparr>accessToken = ''u1.as.15m'', refreshToken = ''u1.rs.7d'', user = aliceObject\<rparr> \<and>
   refreshToken_table (snd (login stubEnv 5 db0 (LoginDto ''al@x.io'' ''pw1''))) =
     refreshToken_table db0 @
       [\<lparr>token = ''u1.rs.7d'', userId = ''u1'', expiresAt = 604800005, isRevoked = False,
         createdAt = 5\<rparr>] \<and>
   register stubEnv 5 db1 (RegisterDto ''cy@x.io'' ''pw3'' None None) =
     (Inl (PrismaClientKnownRequestError ''P2002''), db1\<lparr>user_table := [alice, bob, cy]\<rparr>) \<and>
   login stubEnv 5 db1 (LoginDto ''al@x.io'' ''pw1'') =
     (Inl (PrismaClientKnownRequestError ''P2002''), db1)"
proof -
  have r: "fst (register stubEnv 5 db0 (RegisterDto ''cy@x.io'' ''pw3'' None None)) =
     Inr \<lparr>accessToken = ''uii.as.15m'', refreshToken = ''uii.rs.7d'', user = cyObject\<rparr>"
    by (simp only: register_example fst_conv)
  have l: "fst (login stubEnv 5 db0 (LoginDto ''al@x.io'' ''pw1'')) =
     Inr \<lparr>accessToken = ''u1.as.15m'', refreshToken = ''u1.rs.7d'', user = aliceObject\<rparr>"
    by (simp only: login_example fst_conv)
  note t = token_pair_only_with_persisted_record
    [where env = stubEnv and now = 5 and db = db0
       and rdto = "RegisterDto ''cy@x.io'' ''pw3'' None None"
       and ldto = "LoginDto ''al@x.io'' ''pw1''"
       and resp = "\<lparr>accessToken = ''uii.as.15m'', refreshToken = ''uii.rs.7d'', user = cyObject\<rparr>"
       and resp' = "\<lparr>accessToken = ''u1.as.15m'', refreshToken = ''u1.rs.7d'', user = aliceObject\<rparr>"]
  note t' = token_pair_only_with_persisted_record
    [where env = stubEnv and now = 5 and db = db1
       and m = "''cy@x.io''" and p = "''pw3''" and f = None and l = None
       and usr = cyObject and dbu = "db1\<lparr>user_table := [alice, bob, cy]\<rparr>"
       and tokens = "\<lparr>accessToken = ''uii.as.15m'', refreshToken = ''uii.rs.7d''\<rparr>"
       and e = "PrismaClientKnownRequestError ''P2002''"
       and m' = "''al@x.io''" and p' = "''pw1''" and u = alice
       and tokens' = "\<lparr>accessToken = ''u1.as.15m'', refreshToken = ''u1.rs.7d''\<rparr>"
       and e' = "PrismaClientKnownRequestError ''P2002''"]
  have a: "refreshToken_table (snd (register stubEnv 5 db0 (RegisterDto ''cy@x.io'' ''pw3'' None None))) =
     refreshToken_table db0 @
       [\<lparr>token = ''uii.rs.7d'', userId = ''uii'', expiresAt = 604800005, isRevoked = False,
         createdAt = 5\<rparr>]"
    using t r by (simp add: cyObject_def property_def)
  have b: "refreshToken_table (snd (login stubEnv 5 db0 (LoginDto ''al@x.io'' ''pw1''))) =
     refreshToken_table db0 @
       [\<lparr>token = ''u1.rs.7d'', userId = ''u1'', expiresAt = 604800005, isRevoked = False,
         createdAt = 5\<rparr>]"
    using t l by (simp add: aliceObject_def property_def)
  have c: "register stubEnv 5 db1 (RegisterDto ''cy@x.io'' ''pw3'' None None) =
     (Inl (PrismaClientKnownRequestError ''P2002''), db1\<lparr>user_table := [alice, bob, cy]\<rparr>)"
    using t' register_dup_example by blast
  have d: "login stubEnv 5 db1 (LoginDto ''al@x.io'' ''pw1'') =
     (Inl (PrismaClientKnownRequestError ''P2002''), db1)"
    using t' login_dup_example by blast
  from r a l b c d show ?thesis by blast
qed

section \<open>Rows of the refresh-token table are kept\<close>

lemma kept_nth:
  "kept old new \<longleftrightarrow>
     length old \<le> length new \<and> (\<forall>i<length old. only_revoked (old ! i) (new ! i))"
  by (auto simp: kept_def list_all2_conv_all_nth)

lemma only_revoked_refl: "only_revoked r r"
  by (simp add: only_revoked_def)

lemma only_revoked_trans:
  "only_revoked a b \<Longrightarrow> only_revoked b c \<Longrightarrow> only_revoked a c"
  by (auto simp: only_revoked_def)

lemma kept_refl: "kept rows rows"
  by (simp add: kept_nth only_revoked_refl)

lemma kept_trans: "kept a b \<Longrightarrow> kept b c \<Longrightarrow> kept a c"
  unfolding kept_nth
  by (meson le_trans less_le_trans only_revoked_trans)

lemma kept_append: "kept rows (rows @ extra)"
  by (simp add: kept_nth nth_append only_revoked_refl)

lemma length_update_first: "length (update_first P f xs) = length xs"
  by (induction xs) auto

lemma nth_update_first:
  "i < length xs \<Longrightarrow> update_first P f xs ! i = xs ! i \<or> update_first P f xs ! i = f (xs ! i)"
  by (induction xs arbitrary: i) (auto simp: nth_Cons split: nat.splits)

lemma kept_update_first: "kept rows (update_first P (\<lambda>r. r\<lparr>isRevoked := True\<rparr>) rows)"
  using nth_update_first [of _ rows P "\<lambda>r. r\<lparr>isRevoked := True\<rparr>"]
  by (auto simp: kept_nth length_update_first only_revoked_def)

lemma kept_revoke_matching:
  "kept rows (map (\<lambda>r. if token r = t then r\<lparr>isRevoked := True\<rparr> else r) rows)"
  by (simp add: kept_nth only_revoked_def)

lemma register_kept:
  "kept (refreshToken_table db) (refreshToken_table (snd (register env now db dto)))"
proof (cases dto)
  case (RegisterDto m p f l)
  show ?thesis
    unfolding RegisterDto register.simps
    by (auto split: option.splits sum.splits prod.splits
          dest!: UsersService_create_table storeRefreshToken_table
          simp: kept_refl kept_append simp del: UsersService_create.simps)
qed

lemma login_kept:
  "kept (refreshToken_table db) (refreshToken_table (snd (login env now db dto)))"
proof (cases dto)
  case (LoginDto m p)
  show ?thesis
    unfolding LoginDto login.simps
    by (auto split: option.splits sum.splits
          dest!: storeRefreshToken_table simp: kept_refl kept_append)
qed

lemma refreshTokens_try_kept:
  "kept (refreshToken_table db) (refreshToken_table (snd (refreshTokens_try env now db t)))"
  unfolding refreshTokens_try_def
  by (auto split: option.splits sum.splits
        dest!: storeRefreshToken_table refreshToken_update_table
        simp: kept_refl kept_update_first
        intro: kept_trans [OF kept_update_first kept_append])

lemma snd_refreshTokens: "snd (refreshTokens env now db t) = snd (refreshTokens_try env now db t)"
  by (simp add: refreshTokens_def split: prod.splits sum.splits)

lemma refreshTokens_kept:
  "kept (refreshToken_table db) (refreshToken_table (snd (refreshTokens env now db t)))"
  by (simp add: snd_refreshTokens refreshTokens_try_kept)

lemma logout_kept:
  "kept (refreshToken_table db) (refreshToken_table (snd (logout db t)))"
  by (simp add: logout_def refreshToken_updateMany_def kept_revoke_matching)

lemma serve_kept:
  "kept (refreshToken_table db) (refreshToken_table (serve env now db req))"
proof (cases req)
  case (Register dto)
  then show ?thesis by (simp add: AuthController_register_def register_kept)
next
  case (Login dto)
  then show ?thesis by (simp add: AuthController_login_def login_kept)
next
  case (Refresh dto)
  then show ?thesis by (cases dto) (simp add: refreshTokens_kept)
next
  case (Logout caller dto)
  then show ?thesis by (cases dto) (simp add: logout_kept)
qed

lemma run_kept:
  "kept (refreshToken_table db) (refreshToken_table (run env db reqs))"
proof (induction reqs arbitrary: db)
  case Nil
  show ?case by (simp add: kept_refl)
next
  case (Cons a reqs)
  obtain now req where a: "a = (now, req)" by (cases a)
  show ?case
    unfolding a run.simps
    by (rule kept_trans [OF serve_kept Cons.IH])
qed

text \<open>
  C6. No request to \<open>register\<close>, \<open>login\<close>, \<open>refresh\<close> or \<open>logout\<close>, whether it succeeds or
  fails, deletes a refresh-token record or changes anything of it but \<open>isRevoked\<close>, which
  it can only set to true: every row of the table before is at the same place in the
  table after, equal to what it was or to that with \<open>isRevoked = true\<close>, so its token,
  userId, expiresAt and createdAt are unchanged.
\<close>

theorem refresh_token_records_only_revoked_never_deleted:
  "length (refreshToken_table db) \<le> length (refreshToken_table (serve env now db req)) \<and>
   (\<forall>i < length (refreshToken_table db).
      (refreshToken_table (serve env now db req) ! i = refreshToken_table db ! i \<or>
       refreshToken_table (serve env now db req) ! i =
         (refreshToken_table db ! i)\<lparr>isRevoked := True\<rparr>) \<and>
      token (refreshToken_table (serve env now db req) ! i) =
        token (refreshToken_table db ! i) \<and>
      userId (refreshToken_table (serve env now db req) ! i) =
        userId (refreshToken_table db ! i) \<and>
      expiresAt (refreshToken_table (serve env now db req) ! i) =
        expiresAt (refreshToken_table db ! i) \<and>
      createdAt (refreshToken_table (serve env now db req) ! i) =
        createdAt (refreshToken_table db ! i))"
  using serve_kept [of db env now req]
  by (auto simp: kept_nth only_revoked_def)

theorem refresh_token_records_only_revoked_witness:
  "length (refreshToken_table db0) = 1 \<and>
   refreshToken_table (serve stubEnv 500 db0 (Refresh (RefreshTokenDto ''rt0''))) ! 0 =
     (refreshToken_table db0 ! 0)\<lparr>isRevoked := True\<rparr> \<and>
   token (refreshToken_table (serve stubEnv 500 db0 (Refresh (RefreshTokenDto ''rt0''))) ! 0) =
     ''rt0'' \<and>
   expiresAt (refreshToken_table (serve stubEnv 500 db0 (Refresh (RefreshTokenDto ''rt0''))) ! 0) =
     1000 \<and>
   length (refreshToken_table (serve stubEnv 500 db0 (Refresh (RefreshTokenDto ''rt0'')))) = 2"
proof -
  have a: "(0::nat) < length (refreshToken_table db0)" by (simp add: db0_def)
  from refresh_token_records_only_revoked_never_deleted
         [of db0 stubEnv 500 "Refresh (RefreshTokenDto ''rt0'')"] a
  have "token (refreshToken_table (serve stubEnv 500 db0 (Refresh (RefreshTokenDto ''rt0''))) ! 0) =
          token (refreshToken_table db0 ! 0) \<and>
        expiresAt (refreshToken_table (serve stubEnv 500 db0 (Refresh (RefreshTokenDto ''rt0''))) ! 0) =
          expiresAt (refreshToken_table db0 ! 0)"
    by blast
  then show ?thesis
    by (simp add: refresh_example) (simp add: db0_def rt0_def)
qed

section \<open>Refresh\<close>

text \<open>
  C2. The specification asks for \<open>RefreshTokenExpiredError\<close> when the stored record is
  not revoked and its \<open>expiresAt\<close> is in the past. The body of the \<open>try\<close> block raises
  "Refresh token expired" in that case (when the verifier accepts the token), and the
  \<open>catch\<close> clause turns it into \<open>InvalidRefreshTokenError\<close>: that is what \<open>refreshTokens\<close>
  returns for every such record, and the database is left as it was.
\<close>

theorem expired_refresh_token_reported_as_invalid:
  "(refreshToken_findUnique db t = Some r \<and> \<not> isRevoked r \<and> expiresAt r < now \<longrightarrow>
      refreshTokens env now db t = (Inl InvalidRefreshTokenError, db)) \<and>
   (refreshToken_findUnique db t = Some r \<and> \<not> isRevoked r \<and> expiresAt r < now \<and>
    jwtVerify env t (config env ''JWT_REFRESH_SECRET'') now = Some payload \<longrightarrow>
      refreshTokens_try env now db t = (Inl RefreshTokenExpiredError, db))"
  by (auto simp: refreshTokens_def refreshTokens_try_def split: option.splits)

theorem expired_refresh_token_witness:
  "refreshToken_findUnique db0 ''rt0'' = Some rt0 \<and> \<not> isRevoked rt0 \<and>
   expiresAt rt0 < 2000 \<and>
   jwtVerify stubEnv ''rt0'' (config stubEnv ''JWT_REFRESH_SECRET'') 2000 =
     Some (JwtPayload ''u1'' ''al@x.io'' ''USER'') \<and>
   refreshTokens_try stubEnv 2000 db0 ''rt0'' = (Inl RefreshTokenExpiredError, db0) \<and>
   refreshTokens stubEnv 2000 db0 ''rt0'' = (Inl InvalidRefreshTokenError, db0) \<and>
   fst (refreshTokens stubEnv 2000 db0 ''rt0'') \<noteq> Inl RefreshTokenExpiredError"
proof -
  have a: "refreshToken_findUnique db0 ''rt0'' = Some rt0 \<and> \<not> isRevoked rt0 \<and>
           expiresAt rt0 < 2000"
    by (simp add: stub_defs model_defs)
  have b: "jwtVerify stubEnv ''rt0'' (config stubEnv ''JWT_REFRESH_SECRET'') 2000 =
             Some (JwtPayload ''u1'' ''al@x.io'' ''USER'')"
    by (simp add: stub_defs)
  note t = expired_refresh_token_reported_as_invalid
    [where db = db0 and t = "''rt0''" and r = rt0 and now = 2000 and env = stubEnv
       and payload = "JwtPayload ''u1'' ''al@x.io'' ''USER''"]
  from t a have c: "refreshTokens stubEnv 2000 db0 ''rt0'' = (Inl InvalidRefreshTokenError, db0)"
    by blast
  from t a b have d: "refreshTokens_try stubEnv 2000 db0 ''rt0'' =
      (Inl RefreshTokenExpiredError, db0)"
    by blast
  from c have e: "fst (refreshTokens stubEnv 2000 db0 ''rt0'') \<noteq> Inl RefreshTokenExpiredError"
    by simp
  from a b c d e show ?thesis by blast
qed

lemma revoked_in_all2:
  "list_all2 only_revoked xs ys \<Longrightarrow> revoked_in t xs \<Longrightarrow> revoked_in t (ys @ zs)"
  by (induction rule: list_all2_induct) (auto simp: revoked_in_def only_revoked_def)

lemma revoked_in_kept:
  assumes "kept old new" and "revoked_in t old"
  shows "revoked_in t new"
proof -
  from assms(1) have "list_all2 only_revoked old (take (length old) new)"
    by (simp add: kept_def)
  from revoked_in_all2 [OF this assms(2), of "drop (length old) new"]
  show ?thesis by simp
qed

lemma revoked_in_update_first:
  "find (\<lambda>r. token r = t) rows = Some r \<Longrightarrow>
     revoked_in t (update_first (\<lambda>r. token r = t) (\<lambda>r. r\<lparr>isRevoked := True\<rparr>) rows)"
  by (induction rows) (auto simp: revoked_in_def)

lemma refreshTokens_try_success_revokes:
  "refreshTokens_try env now db t = (Inr tokens, db') \<Longrightarrow>
     revoked_in t (refreshToken_table db')"
  unfolding refreshTokens_try_def refreshToken_findUnique_def
  by (auto split: option.splits sum.splits if_splits
        dest!: storeRefreshToken_table refreshToken_update_table
        intro!: revoked_in_kept [OF kept_append] revoked_in_update_first)

lemma refreshTokens_success_revokes:
  assumes "fst (refreshTokens env now db t) = Inr tokens"
  shows "revoked_in t (refreshToken_table (snd (refreshTokens env now db t)))"
proof -
  obtain res db' where r: "refreshTokens_try env now db t = (res, db')"
    by (cases "refreshTokens_try env now db t")
  with assms have "res = Inr tokens"
    by (cases res) (simp_all add: refreshTokens_def)
  with r have "revoked_in t (refreshToken_table db')"
    by (simp add: refreshTokens_try_success_revokes)
  with r show ?thesis by (simp add: snd_refreshTokens)
qed

lemma refreshTokens_revoked:
  "revoked_in t (refreshToken_table db) \<Longrightarrow>
     refreshTokens env now db t = (Inl InvalidRefreshTokenError, db)"
  unfolding refreshTokens_def refreshTokens_try_def refreshToken_findUnique_def revoked_in_def
  by (auto split: option.splits)

lemma refreshTokens_result:
  "(\<exists>tokens. fst (refreshTokens env now db t) = Inr tokens) \<or>
   fst (refreshTokens env now db t) = Inl InvalidRefreshTokenError"
  unfolding refreshTokens_def
  by (cases "refreshTokens_try env now db t") (auto split: sum.splits)

text \<open>
  C1. A refresh token is used once: when \<open>refreshTokens\<close> succeeds for a token string, then
  after any sequence of further requests, at any clock readings and under any
  collaborators, \<open>refreshTokens\<close> with the same string fails with
  \<open>InvalidRefreshTokenError\<close>.
\<close>

theorem refresh_token_is_single_use:
  assumes "fst (refreshTokens env now db t) = Inr tokens"
  shows "fst (refreshTokens env2 now2 (run env1 (snd (refreshTokens env now db t)) reqs) t) =
           Inl InvalidRefreshTokenError"
proof -
  from assms have "revoked_in t (refreshToken_table (snd (refreshTokens env now db t)))"
    by (rule refreshTokens_success_revokes)
  with run_kept have "revoked_in t
      (refreshToken_table (run env1 (snd (refreshTokens env now db t)) reqs))"
    by (rule revoked_in_kept)
  then show ?thesis by (simp add: refreshTokens_revoked)
qed

theorem refresh_token_is_single_use_witness:
  "fst (refreshTokens stubEnv 500 db0 ''rt0'') =
     Inr \<lparr>accessToken = ''u1.as.15m'', refreshToken = ''u1.rs.7d''\<rparr> \<and>
   fst (refreshTokens stubEnv 800
          (run stubEnv (snd (refreshTokens stubEnv 500 db0 ''rt0''))
             [(600, Logout [] (RefreshTokenDto ''zz'')),
              (700, Refresh (RefreshTokenDto ''u1.rs.7d''))])
          ''rt0'') = Inl InvalidRefreshTokenError"
proof -
  have a: "fst (refreshTokens stubEnv 500 db0 ''rt0'') =
             Inr \<lparr>accessToken = ''u1.as.15m'', refreshToken = ''u1.rs.7d''\<rparr>"
    by (simp add: refresh_example)
  have b: "fst (refreshTokens stubEnv 800
          (run stubEnv (snd (refreshTokens stubEnv 500 db0 ''rt0''))
             [(600, Logout [] (RefreshTokenDto ''zz'')),
              (700, Refresh (RefreshTokenDto ''u1.rs.7d''))])
          ''rt0'') = Inl InvalidRefreshTokenError"
    by (rule refresh_token_is_single_use [OF a])
  from a b show ?thesis by (rule conjI)
qed

section \<open>Logout\<close>

lemma revoke_matching_idem:
  "map (\<lambda>r. if token r = t then r\<lparr>isRevoked := True\<rparr> else r)
     (map (\<lambda>r. if token r = t then r\<lparr>isRevoked := True\<rparr> else r) rows) =
   map (\<lambda>r. if token r = t then r\<lparr>isRevoked := True\<rparr> else r) rows"
  by (induction rows) auto

text \<open>
  C7. \<open>logout\<close> reports success for every token string, known or not, revoked or not,
  and a second \<open>logout\<close> with the same string returns the same result and leaves the same
  database as the first.
\<close>

theorem logout_always_succeeds_and_is_idempotent:
  "fst (logout db t) = Inr (Message ''Logged out successfully'') \<and>
   logout (snd (logout db t)) t = logout db t"
  by (simp add: logout_def refreshToken_updateMany_def revoke_matching_idem o_def)

text \<open>
  C10. \<open>logout\<close> revokes by comparing strings and nothing else: whoever the authenticated
  caller is, the table afterwards is the table before with \<open>isRevoked = true\<close> in every
  row whose token equals the string of the request body. No signature, expiry or owner
  is consulted: the handler has neither the verifier nor the clock, and ignores the
  caller.
\<close>

theorem logout_revokes_by_string_match:
  "refreshToken_table (snd (AuthController_logout caller db (RefreshTokenDto t))) =
     map (\<lambda>r. if token r = t then r\<lparr>isRevoked := True\<rparr> else r) (refreshToken_table db) \<and>
   user_table (snd (AuthController_logout caller db (RefreshTokenDto t))) = user_table db \<and>
   fst (AuthController_logout caller db (RefreshTokenDto t)) =
     Inr (Message ''Logged out successfully'')"
  by (simp add: logout_def refreshToken_updateMany_def)

end
